theory Spec2Isabelle
  imports Complex_Main
begin

section \<open>Values, output and exceptions\<close>

text \<open>
  The module \<^verbatim>\<open>profiling_examples.py\<close> is a collection of zero-argument routines that
  print to standard output, plus a command-line dispatcher. A run is modelled by what it
  prints (a list of events, in order) and by how it ends: normally, or with an exception
  that leaves the routine.

  Text is a list of bytes: a string of the source is its UTF-8 encoding, which is what
  reaches standard output. Python's \<^verbatim>\<open>int\<close> is \<open>int\<close>. Python's
  \<^verbatim>\<open>float\<close> is IEEE binary64. Where a routine only passes a number on (a clock
  reading, a memory size), the number is a \<open>real\<close>. The defensive-check routine adds
  floats, so it is given twice: over \<open>real\<close>, a decimal literal being the number it
  writes and addition being exact, and over \<open>float64\<close>, where every addition rounds as
  the interpreter's does.
\<close>

section \<open>Binary64 numbers\<close>

text \<open>
  \<open>Finite m e\<close> is the number \<open>m * 2 ^ e\<close>; a binary64 number is such a number with
  \<open>\<bar>m\<bar> < 2 ^ 53\<close> and \<open>- 1074 \<le> e \<le> 971\<close>, or an infinity, or a NaN. The two
  zeros are one value here: they compare equal, and a total that starts at \<^verbatim>\<open>0.0\<close> and
  only has values added that are \<^verbatim>\<open>>= 0.0\<close> is never the negative zero.
\<close>

datatype float64 = Finite int int | PosInf | NegInf | NaN

fun is_Finite :: "float64 \<Rightarrow> bool" where
  "is_Finite (Finite m e) = True"
| "is_Finite _ = False"

text \<open>The number a finite value stands for (and 0 for the others, which stand for none).\<close>

fun valof :: "float64 \<Rightarrow> real" where
  "valof (Finite m e) = (if 0 \<le> e then of_int m * 2 ^ nat e else of_int m / 2 ^ nat (- e))"
| "valof _ = 0"

text \<open>The number of binary digits of a natural number.\<close>

fun bitlen :: "nat \<Rightarrow> nat" where
  "bitlen n = (if n = 0 then 0 else Suc (bitlen (n div 2)))"

declare bitlen.simps [simp del]

text \<open>
  \<open>round_even mag k\<close> drops the \<open>k\<close> lowest binary digits of \<open>mag\<close> (for
  \<open>k > 0\<close>), rounding to the nearest and a tie to the even neighbour.
  \<open>round64 m e\<close> is \<open>m * 2 ^ e\<close> rounded to binary64 in the default rounding mode:
  \<open>k\<close> digits are dropped so that the magnitude keeps at most 53 digits and the
  exponent is not below \<open>- 1074\<close> (\<open>shift_round\<close>), and a result of magnitude
  \<open>2 ^ 1024\<close> or more is an infinity (\<open>finish\<close>).
\<close>

definition round_even :: "nat \<Rightarrow> nat \<Rightarrow> nat" where
  "round_even mag k =
     (if mag mod 2 ^ k > 2 ^ (k - 1) \<or> (mag mod 2 ^ k = 2 ^ (k - 1) \<and> odd (mag div 2 ^ k))
      then mag div 2 ^ k + 1 else mag div 2 ^ k)"

definition finish :: "bool \<Rightarrow> nat \<Rightarrow> int \<Rightarrow> float64" where
  "finish neg q e =
     (if int (bitlen q) + e > 1024 then (if neg then NegInf else PosInf)
      else Finite (if neg then - int q else int q) e)"

definition shift_round :: "bool \<Rightarrow> nat \<Rightarrow> int \<Rightarrow> int \<Rightarrow> float64" where
  "shift_round neg mag e k =
     (if k \<le> 0 then finish neg mag e else finish neg (round_even mag (nat k)) (e + k))"

definition round64 :: "int \<Rightarrow> int \<Rightarrow> float64" where
  "round64 m e =
     shift_round (m < 0) (nat \<bar>m\<bar>) e (max (int (bitlen (nat \<bar>m\<bar>)) - 53) (- 1074 - e))"

text \<open>
  \<^verbatim>\<open>a + b\<close> on floats: the exact sum of two finite values, which is an integer
  multiple of the smaller of their two powers of two, rounded to binary64.
\<close>

fun fadd :: "float64 \<Rightarrow> float64 \<Rightarrow> float64" where
  "fadd (Finite m1 e1) (Finite m2 e2) =
     round64 (m1 * 2 ^ nat (e1 - min e1 e2) + m2 * 2 ^ nat (e2 - min e1 e2)) (min e1 e2)"
| "fadd NaN _ = NaN"
| "fadd _ NaN = NaN"
| "fadd PosInf NegInf = NaN"
| "fadd NegInf PosInf = NaN"
| "fadd PosInf _ = PosInf"
| "fadd _ PosInf = PosInf"
| "fadd NegInf _ = NegInf"
| "fadd _ NegInf = NegInf"

text \<open>\<^verbatim>\<open>n >= 0.0\<close> on floats; it is false of a NaN.\<close>

fun ge_zero :: "float64 \<Rightarrow> bool" where
  "ge_zero (Finite m e) = (0 \<le> m)"
| "ge_zero PosInf = True"
| "ge_zero NegInf = False"
| "ge_zero NaN = False"

section \<open>Printed values\<close>

datatype exn =
    AssertionError string
  | ImportError string
  | ModuleNotFoundError string
  | OtherException string
  | BaseExceptionOnly string

text \<open>
  \<^verbatim>\<open>except Exception\<close> catches every exception whose class derives from
  \<^verbatim>\<open>Exception\<close>; \<open>BaseExceptionOnly\<close> stands for the others
  (\<^verbatim>\<open>KeyboardInterrupt\<close>, \<^verbatim>\<open>SystemExit\<close>), which it lets through.
\<close>

fun is_Exception :: "exn \<Rightarrow> bool" where
  "is_Exception (BaseExceptionOnly _) = False"
| "is_Exception _ = True"

text \<open>
  One function line of a profiler report; one line of an allocation report
  (\<^verbatim>\<open>tracemalloc.Statistic\<close>) and of a comparison of two snapshots
  (\<^verbatim>\<open>tracemalloc.StatisticDiff\<close>).
\<close>

record profile_entry =
  func_name :: string
  ncalls :: nat
  tottime :: real
  cumtime :: real

record alloc_stat =
  stat_location :: string
  stat_size :: int
  stat_count :: int

record alloc_diff =
  diff_location :: string
  diff_size :: int
  diff_size_diff :: int
  diff_count :: int
  diff_count_diff :: int

text \<open>
  A piece of a formatted string literal: literal text, or a number formatted with a fixed
  number of decimals (\<^verbatim>\<open>{x:.6f}\<close> is \<open>Fixed 6 x\<close>).
\<close>

datatype piece = Lit string | Fixed nat real

datatype pyval =
    Str string
  | FStr "piece list"
  | Float real
  | Double float64
  | Integer int
  | Exc exn
  | Stat alloc_stat
  | Diff alloc_diff

text \<open>
  \<open>Print vs\<close> is one call of \<^verbatim>\<open>print\<close> with the arguments \<open>vs\<close>;
  \<open>Report es\<close> is the report that \<^verbatim>\<open>print_stats\<close> writes, as the entries of its
  function lines in the order printed; \<open>Sleep d\<close> is \<^verbatim>\<open>time.sleep(d)\<close>.
\<close>

datatype event = Print "pyval list" | Report "profile_entry list" | Sleep real

type_synonym 'a result = "event list \<times> (exn + 'a)"

section \<open>The defensive-check routine\<close>

text \<open>
  \<^verbatim>\<open>
  numbers = [1.5, 2.3, 0.7, -0.001, 4.4]
  total = 0.0
  for n in numbers:
      assert n >= 0.0, 'Les dades han de contenir nom\'es valors positius'
      total += n
  print('total \'es:', total)
  \<close>
  The loop returns the value of \<open>total\<close> when it is left and the exception that left
  it, if any. Assertions are executed, as in the interpreter's default mode.
\<close>

definition assertion_message :: string where
  "assertion_message =
     ''Les dades han de contenir nom'' @ [CHR 0xC3, CHR 0xA9] @ ''s valors positius''"

fun assertion_loop :: "real \<Rightarrow> real list \<Rightarrow> real \<times> exn option" where
  "assertion_loop tot [] = (tot, None)"
| "assertion_loop tot (n # ns) =
     (if n \<ge> 0.0 then assertion_loop (tot + n) ns
      else (tot, Some (AssertionError assertion_message)))"

definition assertion_example_on :: "real list \<Rightarrow> unit result" where
  "assertion_example_on nums =
     (case assertion_loop 0.0 nums of
        (tot, Some e) \<Rightarrow> ([], Inl e)
      | (tot, None) \<Rightarrow>
          ([Print [Str (''total '' @ [CHR 0xC3, CHR 0xA9] @ ''s:''), Float tot]], Inr ()))"

definition numbers :: "real list" where
  "numbers = [1.5, 2.3, 0.7, -0.001, 4.4]"

definition assertion_example :: "unit result" where
  "assertion_example = assertion_example_on numbers"

text \<open>
  The same loop and routine over binary64: the guard is the float comparison and
  \<^verbatim>\<open>total += n\<close> is the float addition. \<open>numbers_float\<close> is the list that the
  interpreter builds from the five literals, each literal being read as the binary64
  number nearest to it.
\<close>

fun assertion_loop_float :: "float64 \<Rightarrow> float64 list \<Rightarrow> float64 \<times> exn option" where
  "assertion_loop_float tot [] = (tot, None)"
| "assertion_loop_float tot (n # ns) =
     (if ge_zero n then assertion_loop_float (fadd tot n) ns
      else (tot, Some (AssertionError assertion_message)))"

definition assertion_example_on_float :: "float64 list \<Rightarrow> unit result" where
  "assertion_example_on_float nums =
     (case assertion_loop_float (Finite 0 0) nums of
        (tot, Some e) \<Rightarrow> ([], Inl e)
      | (tot, None) \<Rightarrow>
          ([Print [Str (''total '' @ [CHR 0xC3, CHR 0xA9] @ ''s:''), Double tot]], Inr ()))"

definition numbers_float :: "float64 list" where
  "numbers_float =
     [Finite 3 (- 1),
      Finite 2589569785738035 (- 50),
      Finite 3152519739159347 (- 52),
      Finite (- 1152921504606847) (- 60),
      Finite 2476979795053773 (- 49)]"

text \<open>
  Every addition of the loop, started at \<open>tot\<close>, gives a finite value that is the exact
  sum of its operands: nothing is rounded and nothing overflows.
\<close>

fun adds_exactly :: "float64 \<Rightarrow> float64 list \<Rightarrow> bool" where
  "adds_exactly tot [] = True"
| "adds_exactly tot (n # ns) =
     (is_Finite (fadd tot n) \<and> valof (fadd tot n) = valof tot + valof n
      \<and> adds_exactly (fadd tot n) ns)"


section \<open>What the routines read from outside the module\<close>

text \<open>
  The routines call the standard library and two optional packages. What those calls
  return is not decided by the module, so it is a parameter of the model.
  \<^item> \<open>perf_counter\<close>: the readings of the two calls of \<^verbatim>\<open>time.perf_counter\<close>.
  \<^item> \<open>cprofile_stats\<close>: the entries that \<^verbatim>\<open>cProfile.Profile\<close> collected around
    \<^verbatim>\<open>work_profile()\<close>, as \<^verbatim>\<open>pstats.Stats(pr)\<close> loads them; \<open>pstats\<close>: the three
    methods of \<^verbatim>\<open>pstats.Stats\<close> the module calls. A \<^verbatim>\<open>Stats\<close> object is the list
    of its entries in its current order; \<open>print_stats\<close> returns the function lines it
    prints.
  \<^item> \<open>snap2_statistics\<close>, \<open>snap2_compare_to_snap1\<close>: what
    \<^verbatim>\<open>snap2.statistics("lineno")\<close> and \<^verbatim>\<open>snap2.compare_to(snap1, "lineno")\<close> return.
  \<^item> \<open>import_memory_profiler\<close>: the outcome of
    \<^verbatim>\<open>from memory_profiler import profile\<close>: the exception raised, or the decorator. A
    zero-argument function is modelled by the result of calling it, a decorator maps such
    a function to another.
  \<^item> \<open>import_psutil\<close>: the outcome of \<^verbatim>\<open>import psutil\<close>: the exception raised, or the
    successive values of \<^verbatim>\<open>proc.memory_info().rss\<close> for this process.
  \<^item> \<open>call_other\<close>: the outcome of calling a callable of the global namespace that the
    module did not define.
\<close>

record pstats_lib =
  strip_dirs :: "profile_entry list \<Rightarrow> profile_entry list"
  sort_stats :: "string \<Rightarrow> profile_entry list \<Rightarrow> profile_entry list"
  print_stats :: "nat \<Rightarrow> profile_entry list \<Rightarrow> profile_entry list"

record env =
  perf_counter :: "real \<times> real"
  cprofile_stats :: "profile_entry list"
  pstats :: pstats_lib
  snap2_statistics :: "alloc_stat list"
  snap2_compare_to_snap1 :: "alloc_diff list"
  import_memory_profiler :: "exn + (int result \<Rightarrow> int result)"
  import_psutil :: "exn + (nat \<Rightarrow> int)"
  call_other :: "string \<Rightarrow> unit result"

section \<open>The timing, profiling and allocation-tracing routines\<close>

text \<open>
  \<^verbatim>\<open>
  def work_timing():
      return sum(i * i for i in range(1_00_000))
  t0 = time.perf_counter()
  work_timing()
  t1 = time.perf_counter()
  print(f"Temps: {t1 - t0:.6f} s")
  \<close>
  The value of \<^verbatim>\<open>work_timing()\<close> is discarded.
\<close>

definition work_timing :: int where
  "work_timing = sum_list (map (\<lambda>i. i * i) (map int [0..<100000]))"

definition timing_example :: "env \<Rightarrow> unit result" where
  "timing_example env =
     (case perf_counter env of
        (t0, t1) \<Rightarrow> ([Print [FStr [Lit ''Temps: '', Fixed 6 (t1 - t0), Lit '' s'']]], Inr ()))"

text \<open>
  \<^verbatim>\<open>
  with cProfile.Profile() as pr:
      work_profile()
  stats = pstats.Stats(pr).strip_dirs().sort_stats("cumtime")
  stats.print_stats(10)
  \<close>
\<close>

definition work_profile :: int where
  "work_profile = sum_list (map (\<lambda>i. i * i) (map int [0..<100000]))"

definition cprofile_example :: "env \<Rightarrow> unit result" where
  "cprofile_example env =
     (let pr = cprofile_stats env;
          stats = sort_stats (pstats env) ''cumtime'' (strip_dirs (pstats env) pr)
      in ([Report (print_stats (pstats env) 10 stats)], Inr ()))"

text \<open>
  \<^verbatim>\<open>
  def allocate_data():
      data = [i for i in range(300_000)]
      mapping = {i: i * 2 for i in range(150_000)}
      return len(data) + len(mapping)
  tracemalloc.start()
  snap1 = tracemalloc.take_snapshot()
  allocate_data()
  snap2 = tracemalloc.take_snapshot()
  print("TOP l\'inies per bytes (snapshot 2):")
  for stat in snap2.statistics("lineno")[:10]:
      print(stat)
  print("\nDifer\`encies (snap2 - snap1):")
  for stat in snap2.compare_to(snap1, "lineno")[:10]:
      print(stat)
  \<close>
  The dictionary is an association list; its keys are distinct, so its length is the
  number of its keys. The value of \<^verbatim>\<open>allocate_data()\<close> is discarded.
\<close>

definition allocate_data :: int where
  "allocate_data =
     (let data = map int [0..<300000];
          mapping = map (\<lambda>i. (i, i * 2)) (map int [0..<150000])
      in int (length data) + int (length mapping))"

definition tracemalloc_example :: "env \<Rightarrow> unit result" where
  "tracemalloc_example env =
     ([Print [Str (''TOP l'' @ [CHR 0xC3, CHR 0xAD] @ ''nies per bytes (snapshot 2):'')]]
      @ map (\<lambda>stat. Print [Stat stat]) (take 10 (snap2_statistics env))
      @ [Print [Str ([CHR 0x0A] @ ''Difer'' @ [CHR 0xC3, CHR 0xA8]
                     @ ''ncies (snap2 - snap1):'')]]
      @ map (\<lambda>stat. Print [Diff stat]) (take 10 (snap2_compare_to_snap1 env)),
      Inr ())"

section \<open>The memory-profiling routines\<close>

text \<open>
  \<^verbatim>\<open>result = work(); print(label, result)\<close>: an exception of \<^verbatim>\<open>work()\<close> leaves
  the routine after what \<^verbatim>\<open>work()\<close> printed.
\<close>

definition print_result :: "string \<Rightarrow> int result \<Rightarrow> unit result" where
  "print_result label w =
     (case w of
        (out, Inl e) \<Rightarrow> (out, Inl e)
      | (out, Inr r) \<Rightarrow> (out @ [Print [Str label, Integer r]], Inr ()))"

text \<open>
  \<^verbatim>\<open>
  try:
      from memory_profiler import profile
  except Exception as e:
      print("(warning sign)  memory_profiler no est\`a disponible:", e)
      print("Instal.la-la amb: pip install memory_profiler")
      return
  @profile
  def work():
      data = [i for i in range(500_000)]
      doubled = [x * 2 for x in data]
      return sum(doubled)
  result = work()
  print("Resultat:", result)
  \<close>
\<close>

definition memory_profiler_work :: "int result" where
  "memory_profiler_work =
     (let data = map int [0..<500000];
          doubled = map (\<lambda>x. x * 2) data
      in ([], Inr (sum_list doubled)))"

definition memory_profiler_example :: "env \<Rightarrow> unit result" where
  "memory_profiler_example env =
     (case import_memory_profiler env of
        Inl e \<Rightarrow>
          if is_Exception e then
            ([Print [Str ([CHR 0xE2, CHR 0x9A, CHR 0xA0, CHR 0xEF, CHR 0xB8, CHR 0x8F]
                          @ ''  memory_profiler no est'' @ [CHR 0xC3, CHR 0xA0]
                          @ '' disponible:''), Exc e],
              Print [Str (''Instal'' @ [CHR 0xC2, CHR 0xB7]
                          @ ''la-la amb: pip install memory_profiler'')]],
             Inr ())
          else ([], Inl e)
      | Inr profile \<Rightarrow> print_result ''Resultat:'' (profile memory_profiler_work))"

text \<open>
  \<^verbatim>\<open>
  try:
      from memory_profiler import profile
  except Exception:
      def profile(func):
          return func
  @profile
  def work():
      total = 0
      for i in range(500_000):
          total += i * 2
      return total
  result = work()
  print("Resultat (single-loop):", result)
  \<close>
\<close>

definition noop_profile :: "int result \<Rightarrow> int result" where
  "noop_profile func = func"

fun single_loop :: "int \<Rightarrow> int list \<Rightarrow> int" where
  "single_loop tot [] = tot"
| "single_loop tot (i # rest) = single_loop (tot + i * 2) rest"

definition memory_profiler_eficient_work :: "int result" where
  "memory_profiler_eficient_work = ([], Inr (single_loop 0 (map int [0..<500000])))"

definition memory_profiler_eficient_example :: "env \<Rightarrow> unit result" where
  "memory_profiler_eficient_example env =
     (case import_memory_profiler env of
        Inl e \<Rightarrow>
          if is_Exception e then
            print_result ''Resultat (single-loop):'' (noop_profile memory_profiler_eficient_work)
          else ([], Inl e)
      | Inr profile \<Rightarrow>
          print_result ''Resultat (single-loop):'' (profile memory_profiler_eficient_work))"

section \<open>The process-memory routine\<close>

text \<open>
  \<^verbatim>\<open>
  try:
      import psutil
  except Exception as e:
      print("(warning sign)  psutil no est\`a disponible:", e)
      print("Instal.la-la amb: pip install psutil")
      return
  proc = psutil.Process(os.getpid())
  def rss_mb() -> float:
      return proc.memory_info().rss / (1024 * 1024)
  print(f"RSS inicial: {rss_mb():.1f} MB")
  data = [i for i in range(300_000)]
  time.sleep(0.3)
  print(f"RSS despr\'es d'allocar: {rss_mb():.1f} MB")
  del data
  time.sleep(0.3)
  print(f"RSS final: {rss_mb():.1f} MB")
  \<close>
\<close>

definition rss_mb :: "int \<Rightarrow> real" where
  "rss_mb rss = real_of_int rss / (1024 * 1024)"

definition psutil_rss_example :: "env \<Rightarrow> unit result" where
  "psutil_rss_example env =
     (case import_psutil env of
        Inl e \<Rightarrow>
          if is_Exception e then
            ([Print [Str ([CHR 0xE2, CHR 0x9A, CHR 0xA0, CHR 0xEF, CHR 0xB8, CHR 0x8F]
                          @ ''  psutil no est'' @ [CHR 0xC3, CHR 0xA0] @ '' disponible:''),
                     Exc e],
              Print [Str (''Instal'' @ [CHR 0xC2, CHR 0xB7] @ ''la-la amb: pip install psutil'')]],
             Inr ())
          else ([], Inl e)
      | Inr rss \<Rightarrow>
          ([Print [FStr [Lit ''RSS inicial: '', Fixed 1 (rss_mb (rss 0)), Lit '' MB'']],
            Sleep 0.3,
            Print [FStr [Lit (''RSS despr'' @ [CHR 0xC3, CHR 0xA9] @ ''s d'' @ [CHR 0x27]
                              @ ''allocar: ''), Fixed 1 (rss_mb (rss 1)), Lit '' MB'']],
            Sleep 0.3,
            Print [FStr [Lit ''RSS final: '', Fixed 1 (rss_mb (rss 2)), Lit '' MB'']]],
           Inr ()))"

section \<open>The list of names and the dispatcher\<close>

text \<open>
  \<^verbatim>\<open>
  def _list_functions() -> None:
      fns = ["assertion_example", "timing_example", "cprofile_example",
             "tracemalloc_example", "memory_profiler_example",
             "memory_profiler_eficient_example", "psutil_rss_example"]
      print("Funcions disponibles:")
      for name in fns:
          print("  -", name)
  \<close>
\<close>

definition fns :: "string list" where
  "fns =
     [''assertion_example'',
      ''timing_example'',
      ''cprofile_example'',
      ''tracemalloc_example'',
      ''memory_profiler_example'',
      ''memory_profiler_eficient_example'',
      ''psutil_rss_example'']"

definition list_functions :: "unit result" where
  "list_functions =
     (Print [Str ''Funcions disponibles:''] # map (\<lambda>name. Print [Str ''  -'', Str name]) fns,
      Inr ())"

text \<open>
  The functions that the module defines at its top level, and the objects of the global
  namespace: a function of the module, another callable, an object that is not callable
  (named by its class), or \<^verbatim>\<open>None\<close>.
\<close>

datatype pyfun =
    Fn_assertion_example
  | Fn_timing_example
  | Fn_cprofile_example
  | Fn_tracemalloc_example
  | Fn_memory_profiler_example
  | Fn_memory_profiler_eficient_example
  | Fn_psutil_rss_example
  | Fn_list_functions

datatype pyobj = Function pyfun | Callable string | Object string | NoneObj

fun callable :: "pyobj \<Rightarrow> bool" where
  "callable (Function _) = True"
| "callable (Callable _) = True"
| "callable (Object _) = False"
| "callable NoneObj = False"

type_synonym namespace = "string \<rightharpoonup> pyobj"

text \<open>\<^verbatim>\<open>d.get(key)\<close>: the value bound to the key, \<^verbatim>\<open>None\<close> when there is none.\<close>

definition pyget :: "namespace \<Rightarrow> string \<Rightarrow> pyobj" where
  "pyget g name = (case g name of None \<Rightarrow> NoneObj | Some v \<Rightarrow> v)"

text \<open>
  The global namespace when the dispatcher looks a name up: what the interpreter put
  there before the module ran (\<open>g0\<close>), then the module's own bindings in the order of
  the source: the import from \<^verbatim>\<open>__future__\<close>, the eight \<^verbatim>\<open>def\<close>s, and under
  \<^verbatim>\<open>if __name__ == "__main__"\<close> the names \<^verbatim>\<open>argparse\<close>, \<^verbatim>\<open>parser\<close> and
  \<^verbatim>\<open>args\<close>.
\<close>

definition module_globals :: "namespace \<Rightarrow> namespace" where
  "module_globals g0 =
     g0(''annotations'' \<mapsto> Object ''_Feature'',
        ''assertion_example'' \<mapsto> Function Fn_assertion_example,
        ''timing_example'' \<mapsto> Function Fn_timing_example,
        ''cprofile_example'' \<mapsto> Function Fn_cprofile_example,
        ''tracemalloc_example'' \<mapsto> Function Fn_tracemalloc_example,
        ''memory_profiler_example'' \<mapsto> Function Fn_memory_profiler_example,
        ''memory_profiler_eficient_example'' \<mapsto> Function Fn_memory_profiler_eficient_example,
        ''psutil_rss_example'' \<mapsto> Function Fn_psutil_rss_example,
        ''_list_functions'' \<mapsto> Function Fn_list_functions,
        ''argparse'' \<mapsto> Object ''module'',
        ''parser'' \<mapsto> Object ''ArgumentParser'',
        ''args'' \<mapsto> Object ''Namespace'')"

text \<open>
  What the interpreter binds in the namespace of a script before it runs it; none of it
  is callable.
\<close>

definition script_namespace :: namespace where
  "script_namespace =
     map_of
       [(''__name__'', Object ''str''),
        (''__doc__'', Object ''str''),
        (''__annotations__'', Object ''dict''),
        (''__package__'', NoneObj),
        (''__loader__'', Object ''SourceFileLoader''),
        (''__spec__'', NoneObj),
        (''__builtins__'', Object ''module''),
        (''__file__'', Object ''str''),
        (''__cached__'', NoneObj)]"

fun run :: "env \<Rightarrow> pyfun \<Rightarrow> unit result" where
  "run env Fn_assertion_example = assertion_example"
| "run env Fn_timing_example = timing_example env"
| "run env Fn_cprofile_example = cprofile_example env"
| "run env Fn_tracemalloc_example = tracemalloc_example env"
| "run env Fn_memory_profiler_example = memory_profiler_example env"
| "run env Fn_memory_profiler_eficient_example = memory_profiler_eficient_example env"
| "run env Fn_psutil_rss_example = psutil_rss_example env"
| "run env Fn_list_functions = list_functions"

text \<open>\<^verbatim>\<open>fn()\<close>; calling an object that is not callable raises \<^verbatim>\<open>TypeError\<close>.\<close>

fun call :: "env \<Rightarrow> pyobj \<Rightarrow> unit result" where
  "call env (Function f) = run env f"
| "call env (Callable c) = call_other env c"
| "call env (Object c) = ([], Inl (OtherException ''TypeError''))"
| "call env NoneObj = ([], Inl (OtherException ''TypeError''))"

text \<open>
  \<^verbatim>\<open>
  if not args.func:
      _list_functions()
  else:
      fn = globals().get(args.func)
      if callable(fn):
          fn()
      else:
          print(f"Funci\'o no trobada: {args.func}\n")
          _list_functions()
  \<close>
  \<^verbatim>\<open>args.func\<close> is \<^verbatim>\<open>None\<close> when the flag is absent and a string otherwise;
  \<^verbatim>\<open>not args.func\<close> holds for \<^verbatim>\<open>None\<close> and for the empty string. The dispatcher
  is the choice of one of three branches (\<open>dispatch\<close>) followed by the branch
  (\<open>perform\<close>).
\<close>

datatype branch = List_branch | Invoke_branch pyobj | Not_found_branch string

definition dispatch :: "namespace \<Rightarrow> string option \<Rightarrow> branch" where
  "dispatch g0 func =
     (case func of
        None \<Rightarrow> List_branch
      | Some name \<Rightarrow>
          if name = [] then List_branch
          else (let fn = pyget (module_globals g0) name
                in if callable fn then Invoke_branch fn else Not_found_branch name))"

definition not_found_message :: "string \<Rightarrow> string" where
  "not_found_message name =
     ''Funci'' @ [CHR 0xC3, CHR 0xB3] @ '' no trobada: '' @ name @ [CHR 0x0A]"

fun perform :: "env \<Rightarrow> branch \<Rightarrow> unit result" where
  "perform env List_branch = list_functions"
| "perform env (Invoke_branch fn) = call env fn"
| "perform env (Not_found_branch name) =
     (Print [Str (not_found_message name)] # fst list_functions, snd list_functions)"

definition main :: "env \<Rightarrow> namespace \<Rightarrow> string option \<Rightarrow> unit result" where
  "main env g0 func = perform env (dispatch g0 func)"

section \<open>The library's contract and two environments\<close>

text \<open>
  What the documentation of \<^verbatim>\<open>pstats\<close> promises for the calls the module makes:
  \<^verbatim>\<open>sort_stats("cumtime")\<close> leaves the entries in order of non-increasing cumulative
  time, and \<^verbatim>\<open>print_stats(n)\<close> prints the first \<open>n\<close> entries of the current order.
\<close>

definition by_cumtime :: "profile_entry list \<Rightarrow> bool" where
  "by_cumtime es = sorted_wrt (\<lambda>a b. cumtime a \<ge> cumtime b) es"

definition pstats_contract :: "pstats_lib \<Rightarrow> bool" where
  "pstats_contract lib \<longleftrightarrow>
     (\<forall>s. by_cumtime (sort_stats lib ''cumtime'' s)) \<and> (\<forall>n s. print_stats lib n s = take n s)"

text \<open>An implementation of the three methods, and a profile of twelve entries.\<close>

definition reference_pstats :: pstats_lib where
  "reference_pstats =
     \<lparr>strip_dirs = (\<lambda>s. s),
      sort_stats = (\<lambda>key s. if key = ''cumtime'' then rev (sort_key cumtime s) else s),
      print_stats = take\<rparr>"

definition example_profile :: "profile_entry list" where
  "example_profile =
     map (\<lambda>(f, c). \<lparr>func_name = f, ncalls = 1, tottime = c, cumtime = c\<rparr>)
       [(''f0'', 3), (''f1'', 1), (''f2'', 4), (''f3'', 1), (''f4'', 5), (''f5'', 9),
        (''f6'', 2), (''f7'', 6), (''f8'', 5), (''f9'', 3), (''f10'', 5), (''f11'', 8)]"

text \<open>
  An environment where neither optional package is installed, and one where both are:
  there the decorator prints one line after the function it wraps has run and returns
  the function's value.
\<close>

definition env_without_optional :: env where
  "env_without_optional =
     \<lparr>perf_counter = (10, 10.012),
      cprofile_stats = example_profile,
      pstats = reference_pstats,
      snap2_statistics = [],
      snap2_compare_to_snap1 = [],
      import_memory_profiler =
        Inl (ModuleNotFoundError (''No module named '' @ [CHR 0x27] @ ''memory_profiler''
                                  @ [CHR 0x27])),
      import_psutil =
        Inl (ModuleNotFoundError (''No module named '' @ [CHR 0x27] @ ''psutil'' @ [CHR 0x27])),
      call_other = (\<lambda>c. ([], Inr ()))\<rparr>"

definition env_with_optional :: env where
  "env_with_optional =
     env_without_optional
       \<lparr>import_memory_profiler := Inr (\<lambda>w. (fst w @ [Print [Str ''Line #    Mem usage'']], snd w)),
        import_psutil := Inr (\<lambda>k. 50000000 + 1000000 * int k)\<rparr>"

section \<open>Properties of the defensive-check routine\<close>

lemma assertion_loop_nonneg:
  "(\<And>n. n \<in> set ns \<Longrightarrow> 0 \<le> n) \<Longrightarrow> assertion_loop tot ns = (tot + sum_list ns, None)"
  by (induction ns arbitrary: tot) (simp_all add: add.assoc)

lemma assertion_loop_stops:
  "(\<And>n. n \<in> set pre \<Longrightarrow> 0 \<le> n) \<Longrightarrow> \<not> 0 \<le> x \<Longrightarrow>
   assertion_loop tot (pre @ x # rest) =
     (tot + sum_list pre, Some (AssertionError assertion_message))"
  by (induction pre arbitrary: tot) (simp_all add: add.assoc)

text \<open>
  C1: on its fixed input, which has exactly one negative element, the routine ends with
  the assertion's exception when it reaches that element. The total is then
  \<open>1.5 + 2.3 + 0.7\<close>, nothing has been printed, and whatever follows the negative
  element has no influence on the outcome.
\<close>

theorem assertion_example_aborts:
  "numbers = [1.5, 2.3, 0.7] @ (-0.001) # [4.4]
   \<and> length (filter (\<lambda>n. n < 0) numbers) = 1
   \<and> assertion_example = ([], Inl (AssertionError assertion_message))
   \<and> assertion_loop 0 numbers = (1.5 + 2.3 + 0.7, Some (AssertionError assertion_message))
   \<and> (\<forall>rest. assertion_loop 0 ([1.5, 2.3, 0.7] @ (-0.001) # rest)
         = (1.5 + 2.3 + 0.7, Some (AssertionError assertion_message)))"
proof -
  have stop: "assertion_loop 0 ([1.5, 2.3, 0.7] @ (-0.001) # rest)
      = (1.5 + 2.3 + 0.7, Some (AssertionError assertion_message))" for rest
    by simp
  have shape: "numbers = [1.5, 2.3, 0.7] @ (-0.001) # [4.4]"
    by (simp add: numbers_def)
  have "assertion_loop 0 numbers = (1.5 + 2.3 + 0.7, Some (AssertionError assertion_message))"
    unfolding shape by (rule stop)
  moreover from this have "assertion_example = ([], Inl (AssertionError assertion_message))"
    by (simp add: assertion_example_def assertion_example_on_def)
  moreover have "length (filter (\<lambda>n. n < 0) numbers) = 1"
    by (simp add: numbers_def)
  ultimately show ?thesis
    using shape stop by blast
qed

text \<open>
  Rounding leaves alone what is a binary64 number already; a tie goes to the even
  neighbour; the largest finite number is \<open>(2 ^ 53 - 1) * 2 ^ 971\<close>; below the smallest
  exponent the digits that do not fit are rounded away.
\<close>

lemma round64_exact:
  assumes "bitlen (nat \<bar>m\<bar>) \<le> 53" and "- 1074 \<le> e" and "int (bitlen (nat \<bar>m\<bar>)) + e \<le> 1024"
  shows "round64 m e = Finite m e"
  using assms by (cases "m < 0") (simp_all add: round64_def shift_round_def finish_def)

lemma round64_examples:
  "round64 9007199254740993 0 = Finite 4503599627370496 1"
  "round64 9007199254740995 0 = Finite 4503599627370498 1"
  "round64 (- 9007199254740995) 0 = Finite (- 4503599627370498) 1"
  "round64 9007199254740991 971 = Finite 9007199254740991 971"
  "round64 18014398509481983 970 = PosInf"
  "round64 1 (- 1075) = Finite 0 (- 1074)"
  "round64 3 (- 1075) = Finite 2 (- 1074)"
  by (simp_all add: round64_def shift_round_def finish_def round_even_def bitlen.simps)

lemma assertion_loop_float_nonneg:
  "(\<And>n. n \<in> set ns \<Longrightarrow> ge_zero n) \<Longrightarrow>
   assertion_loop_float tot ns = (foldl fadd tot ns, None)"
  by (induction ns arbitrary: tot) simp_all

lemma adds_exactly_sum:
  "adds_exactly tot ns \<Longrightarrow> valof (foldl fadd tot ns) = valof tot + sum_list (map valof ns)"
  by (induction ns arbitrary: tot) simp_all

text \<open>
  The five floats of \<open>numbers_float\<close> are the binary64 numbers nearest to the literals
  of the source: each is within half a unit in the last place of its literal.
\<close>

lemma numbers_float_literals:
  "map valof numbers_float =
     [3 / 2, 2589569785738035 / 2 ^ 50, 3152519739159347 / 2 ^ 52,
      - 1152921504606847 / 2 ^ 60, 2476979795053773 / 2 ^ 49]"
  "\<bar>2589569785738035 / 2 ^ 50 - (2.3 :: real)\<bar> < 1 / 2 ^ 52"
  "\<bar>3152519739159347 / 2 ^ 52 - (0.7 :: real)\<bar> < 1 / 2 ^ 54"
  "\<bar>- 1152921504606847 / 2 ^ 60 - (- 0.001 :: real)\<bar> < 1 / 2 ^ 63"
  "\<bar>2476979795053773 / 2 ^ 49 - (4.4 :: real)\<bar> < 1 / 2 ^ 51"
  by (simp_all add: numbers_float_def)

text \<open>
  On the fixed input the float loop does what the exact one does: it stops at the fourth
  element, and the total is then the float 4.5, no addition before it having lost
  anything that survives the last rounding.
\<close>

lemma assertion_loop_float_fixed_input:
  "assertion_loop_float (Finite 0 0) numbers_float =
     (Finite 5066549580791808 (- 50), Some (AssertionError assertion_message))"
  "valof (Finite 5066549580791808 (- 50)) = 1.5 + 2.3 + 0.7"
  "assertion_example_on_float numbers_float = ([], Inl (AssertionError assertion_message))"
proof -
  show a: "assertion_loop_float (Finite 0 0) numbers_float =
     (Finite 5066549580791808 (- 50), Some (AssertionError assertion_message))"
    by (simp add: numbers_float_def round64_def shift_round_def finish_def round_even_def bitlen.simps)
  show "valof (Finite 5066549580791808 (- 50)) = 1.5 + 2.3 + 0.7"
    by simp
  show "assertion_example_on_float numbers_float = ([], Inl (AssertionError assertion_message))"
    unfolding assertion_example_on_float_def a by simp
qed

text \<open>
  C2, as amended: when every element passes the check \<^verbatim>\<open>n >= 0.0\<close>, the loop runs
  to its end and the routine prints the total and returns normally. The total is the
  result of adding the elements to \<^verbatim>\<open>0.0\<close> one after the other in float arithmetic;
  it is the exact sum of the elements when every one of these additions is exact.
\<close>

theorem assertion_example_on_float_nonneg:
  assumes "\<forall>n \<in> set nums. ge_zero n"
  shows "assertion_example_on_float nums =
       ([Print [Str (''total '' @ [CHR 0xC3, CHR 0xA9] @ ''s:''),
                Double (foldl fadd (Finite 0 0) nums)]], Inr ())
     \<and> (adds_exactly (Finite 0 0) nums \<longrightarrow>
          valof (foldl fadd (Finite 0 0) nums) = sum_list (map valof nums))"
proof -
  from assms have "assertion_loop_float (Finite 0 0) nums = (foldl fadd (Finite 0 0) nums, None)"
    by (simp add: assertion_loop_float_nonneg)
  then have "assertion_example_on_float nums =
       ([Print [Str (''total '' @ [CHR 0xC3, CHR 0xA9] @ ''s:''),
                Double (foldl fadd (Finite 0 0) nums)]], Inr ())"
    by (simp add: assertion_example_on_float_def)
  moreover have "valof (foldl fadd (Finite 0 0) nums) = sum_list (map valof nums)"
    if "adds_exactly (Finite 0 0) nums"
    using adds_exactly_sum [OF that] by simp
  ultimately show ?thesis
    by blast
qed

text \<open>The floats 1.5, 2.25, 0.0 and 4.5 add up without rounding, to 8.25.\<close>

theorem assertion_example_on_float_nonneg_witness:
  "assertion_example_on_float [Finite 3 (- 1), Finite 9 (- 2), Finite 0 0, Finite 9 (- 1)] =
       ([Print [Str (''total '' @ [CHR 0xC3, CHR 0xA9] @ ''s:''), Double (Finite 33 (- 2))]],
        Inr ())
   \<and> valof (Finite 33 (- 2)) =
       sum_list (map valof [Finite 3 (- 1), Finite 9 (- 2), Finite 0 0, Finite 9 (- 1)])
   \<and> valof (Finite 33 (- 2)) = 1.5 + 2.25 + 0 + 4.5"
proof -
  have f: "foldl fadd (Finite 0 0) [Finite 3 (- 1), Finite 9 (- 2), Finite 0 0, Finite 9 (- 1)]
      = Finite 33 (- 2)"
    by (simp add: round64_def shift_round_def finish_def round_even_def bitlen.simps)
  have e: "adds_exactly (Finite 0 0) [Finite 3 (- 1), Finite 9 (- 2), Finite 0 0, Finite 9 (- 1)]"
    by (simp add: round64_def shift_round_def finish_def round_even_def bitlen.simps)
  have g: "\<forall>n \<in> set [Finite 3 (- 1), Finite 9 (- 2), Finite 0 0, Finite 9 (- 1)]. ge_zero n"
    by simp
  note t = assertion_example_on_float_nonneg [OF g, unfolded f]
  from t have "assertion_example_on_float
        [Finite 3 (- 1), Finite 9 (- 2), Finite 0 0, Finite 9 (- 1)] =
       ([Print [Str (''total '' @ [CHR 0xC3, CHR 0xA9] @ ''s:''), Double (Finite 33 (- 2))]],
        Inr ())"
    by (rule conjunct1)
  moreover from t e have "valof (Finite 33 (- 2)) =
       sum_list (map valof [Finite 3 (- 1), Finite 9 (- 2), Finite 0 0, Finite 9 (- 1)])"
    by (rule conjunct2 [THEN mp])
  moreover have "valof (Finite 33 (- 2)) = 1.5 + 2.25 + 0 + 4.5"
    by simp
  ultimately show ?thesis
    by (intro conjI)
qed

text \<open>
  The claim as stated, with the exact sum, fails where an addition rounds or overflows.
  The floats that the literals \<^verbatim>\<open>0.1\<close> and \<^verbatim>\<open>0.2\<close> denote both pass the check;
  the routine prints the float \<^verbatim>\<open>0.30000000000000004\<close>, which is not their sum. For
  the list of twice \<open>2 ^ 1023\<close> it prints an infinity.
\<close>

theorem assertion_example_on_float_counterexample:
  "\<bar>valof (Finite 3602879701896397 (- 55)) - 0.1\<bar> < 1 / 2 ^ 57
   \<and> \<bar>valof (Finite 3602879701896397 (- 54)) - 0.2\<bar> < 1 / 2 ^ 56
   \<and> ge_zero (Finite 3602879701896397 (- 55))
   \<and> ge_zero (Finite 3602879701896397 (- 54))
   \<and> assertion_example_on_float
        [Finite 3602879701896397 (- 55), Finite 3602879701896397 (- 54)] =
       ([Print [Str (''total '' @ [CHR 0xC3, CHR 0xA9] @ ''s:''),
                Double (Finite 5404319552844596 (- 54))]], Inr ())
   \<and> valof (Finite 5404319552844596 (- 54)) \<noteq>
       valof (Finite 3602879701896397 (- 55)) + valof (Finite 3602879701896397 (- 54))
   \<and> \<bar>valof (Finite 5404319552844596 (- 54)) - 0.30000000000000004\<bar> < 1 / 2 ^ 55
   \<and> ge_zero (Finite 1 1023)
   \<and> assertion_example_on_float [Finite 1 1023, Finite 1 1023] =
       ([Print [Str (''total '' @ [CHR 0xC3, CHR 0xA9] @ ''s:''), Double PosInf]], Inr ())"
proof -
  have b: "assertion_loop_float (Finite 0 0) [Finite 1 1023, Finite 1 1023] = (PosInf, None)"
    by (simp add: round64_def shift_round_def finish_def round_even_def bitlen.simps)
  have overflow: "assertion_example_on_float [Finite 1 1023, Finite 1 1023] =
       ([Print [Str (''total '' @ [CHR 0xC3, CHR 0xA9] @ ''s:''), Double PosInf]], Inr ())"
    unfolding assertion_example_on_float_def b by simp
  have a: "assertion_loop_float (Finite 0 0)
        [Finite 3602879701896397 (- 55), Finite 3602879701896397 (- 54)]
      = (Finite 5404319552844596 (- 54), None)"
    by (simp add: round64_def shift_round_def finish_def round_even_def bitlen.simps)
  have "assertion_example_on_float
        [Finite 3602879701896397 (- 55), Finite 3602879701896397 (- 54)] =
       ([Print [Str (''total '' @ [CHR 0xC3, CHR 0xA9] @ ''s:''),
                Double (Finite 5404319552844596 (- 54))]], Inr ())"
    unfolding assertion_example_on_float_def a by simp
  with overflow show ?thesis
    by simp
qed

text \<open>
  C10: the check is \<open>n \<ge> 0.0\<close>: an element equal to zero passes it and leaves the
  total as it was, although the message of the assertion speaks of positive values
  (\<^verbatim>\<open>valors positius\<close>).
\<close>

theorem assertion_loop_zero_passes:
  "assertion_loop tot (0.0 # ns) = assertion_loop tot ns
   \<and> assertion_loop tot [0.0] = (tot, None)
   \<and> assertion_example_on [0.0] =
       ([Print [Str (''total '' @ [CHR 0xC3, CHR 0xA9] @ ''s:''), Float 0]], Inr ())
   \<and> assertion_loop tot [-0.001] =
       (tot, Some (AssertionError
          (''Les dades han de contenir nom'' @ [CHR 0xC3, CHR 0xA9] @ ''s valors positius'')))"
  by (simp add: assertion_example_on_def assertion_message_def)

section \<open>Properties of the dispatcher\<close>

lemma list_functions_events:
  "list_functions =
     ([Print [Str ''Funcions disponibles:''],
       Print [Str ''  -'', Str ''assertion_example''],
       Print [Str ''  -'', Str ''timing_example''],
       Print [Str ''  -'', Str ''cprofile_example''],
       Print [Str ''  -'', Str ''tracemalloc_example''],
       Print [Str ''  -'', Str ''memory_profiler_example''],
       Print [Str ''  -'', Str ''memory_profiler_eficient_example''],
       Print [Str ''  -'', Str ''psutil_rss_example'']],
      Inr ())"
  by (simp add: list_functions_def fns_def)

lemma module_globals_defs:
  "module_globals g0 ''assertion_example'' = Some (Function Fn_assertion_example)"
  "module_globals g0 ''timing_example'' = Some (Function Fn_timing_example)"
  "module_globals g0 ''cprofile_example'' = Some (Function Fn_cprofile_example)"
  "module_globals g0 ''tracemalloc_example'' = Some (Function Fn_tracemalloc_example)"
  "module_globals g0 ''memory_profiler_example'' = Some (Function Fn_memory_profiler_example)"
  "module_globals g0 ''memory_profiler_eficient_example'' =
     Some (Function Fn_memory_profiler_eficient_example)"
  "module_globals g0 ''psutil_rss_example'' = Some (Function Fn_psutil_rss_example)"
  "module_globals g0 ''_list_functions'' = Some (Function Fn_list_functions)"
  by (simp_all add: module_globals_def)

lemma module_globals_other:
  assumes "name \<notin> set fns" and "name \<noteq> ''_list_functions''"
    and "\<not> callable (pyget g0 name)"
  shows "\<not> callable (pyget (module_globals g0) name)"
  using assms by (simp add: module_globals_def pyget_def fns_def)

lemma dispatch_nonempty:
  "name \<noteq> [] \<Longrightarrow>
   dispatch g0 (Some name) =
     (if callable (pyget (module_globals g0) name)
      then Invoke_branch (pyget (module_globals g0) name) else Not_found_branch name)"
  by (simp add: dispatch_def Let_def)

lemma script_namespace_not_callable: "\<not> callable (pyget script_namespace name)"
  by (simp add: script_namespace_def pyget_def)

text \<open>
  C3, as amended: the claim speaks of every name that is not one of the seven advertised
  routines. The dispatcher looks the name up among all the globals of the module, so the
  statement holds for the names that are not empty, are none of the seven, are not
  \<^verbatim>\<open>_list_functions\<close> and are bound to no other callable: for each of them the
  dispatcher prints the diagnostic that names it, then the list of the seven names, and
  ends normally.
\<close>

theorem dispatcher_not_found:
  assumes "name \<noteq> []" and "name \<notin> set fns" and "name \<noteq> ''_list_functions''"
    and "\<not> callable (pyget g0 name)"
  shows "dispatch g0 (Some name) = Not_found_branch name
   \<and> main env g0 (Some name) =
       ([Print [Str (''Funci'' @ [CHR 0xC3, CHR 0xB3] @ '' no trobada: '' @ name @ [CHR 0x0A])],
         Print [Str ''Funcions disponibles:''],
         Print [Str ''  -'', Str ''assertion_example''],
         Print [Str ''  -'', Str ''timing_example''],
         Print [Str ''  -'', Str ''cprofile_example''],
         Print [Str ''  -'', Str ''tracemalloc_example''],
         Print [Str ''  -'', Str ''memory_profiler_example''],
         Print [Str ''  -'', Str ''memory_profiler_eficient_example''],
         Print [Str ''  -'', Str ''psutil_rss_example'']],
        Inr ())"
proof -
  from assms have "\<not> callable (pyget (module_globals g0) name)"
    by (simp add: module_globals_other)
  with assms(1) have d: "dispatch g0 (Some name) = Not_found_branch name"
    by (simp add: dispatch_nonempty)
  show ?thesis
    by (simp add: d main_def not_found_message_def list_functions_events)
qed

theorem dispatcher_not_found_witness:
  "dispatch script_namespace (Some ''no_such_function'') = Not_found_branch ''no_such_function''
   \<and> main env_without_optional script_namespace (Some ''no_such_function'') =
       ([Print [Str (''Funci'' @ [CHR 0xC3, CHR 0xB3] @ '' no trobada: no_such_function''
                     @ [CHR 0x0A])],
         Print [Str ''Funcions disponibles:''],
         Print [Str ''  -'', Str ''assertion_example''],
         Print [Str ''  -'', Str ''timing_example''],
         Print [Str ''  -'', Str ''cprofile_example''],
         Print [Str ''  -'', Str ''tracemalloc_example''],
         Print [Str ''  -'', Str ''memory_profiler_example''],
         Print [Str ''  -'', Str ''memory_profiler_eficient_example''],
         Print [Str ''  -'', Str ''psutil_rss_example'']],
        Inr ())"
  using dispatcher_not_found [of "''no_such_function''" script_namespace env_without_optional]
  by (simp add: fns_def script_namespace_not_callable)

text \<open>
  The claim as stated fails at \<^verbatim>\<open>_list_functions\<close>: it is not among the seven names,
  yet the dispatcher finds it and calls it, so no diagnostic is printed.
\<close>

theorem dispatcher_unregistered_counterexample:
  "''_list_functions'' \<notin> set fns
   \<and> dispatch script_namespace (Some ''_list_functions'') = Invoke_branch (Function Fn_list_functions)
   \<and> dispatch script_namespace (Some ''_list_functions'') \<noteq> Not_found_branch ''_list_functions''
   \<and> main env_without_optional script_namespace (Some ''_list_functions'') =
       ([Print [Str ''Funcions disponibles:''],
         Print [Str ''  -'', Str ''assertion_example''],
         Print [Str ''  -'', Str ''timing_example''],
         Print [Str ''  -'', Str ''cprofile_example''],
         Print [Str ''  -'', Str ''tracemalloc_example''],
         Print [Str ''  -'', Str ''memory_profiler_example''],
         Print [Str ''  -'', Str ''memory_profiler_eficient_example''],
         Print [Str ''  -'', Str ''psutil_rss_example'']],
        Inr ())"
proof -
  have d: "dispatch script_namespace (Some ''_list_functions'')
      = Invoke_branch (Function Fn_list_functions)"
    by (simp add: dispatch_nonempty pyget_def module_globals_defs)
  have "''_list_functions'' \<notin> set fns"
    by (simp add: fns_def)
  then show ?thesis
    by (simp add: d main_def list_functions_events)
qed

text \<open>
  C8: each of the seven advertised names is bound, whatever the namespace held before the
  module ran, to a function that the module defines; the dispatcher calls that function
  and does not take the not-found branch.
\<close>

theorem advertised_names_resolve:
  "length fns = 7
   \<and> map (pyget (module_globals g0)) fns =
       map Function
         [Fn_assertion_example, Fn_timing_example, Fn_cprofile_example, Fn_tracemalloc_example,
          Fn_memory_profiler_example, Fn_memory_profiler_eficient_example,
          Fn_psutil_rss_example]
   \<and> (\<forall>name \<in> set fns. \<exists>f.
         pyget (module_globals g0) name = Function f
         \<and> dispatch g0 (Some name) = Invoke_branch (Function f)
         \<and> dispatch g0 (Some name) \<noteq> Not_found_branch name
         \<and> main env g0 (Some name) = run env f)"
proof -
  have look: "map (pyget (module_globals g0)) fns =
       map Function
         [Fn_assertion_example, Fn_timing_example, Fn_cprofile_example, Fn_tracemalloc_example,
          Fn_memory_profiler_example, Fn_memory_profiler_eficient_example,
          Fn_psutil_rss_example]"
    by (simp add: fns_def pyget_def module_globals_defs)
  have each: "\<exists>f. pyget (module_globals g0) name = Function f
         \<and> dispatch g0 (Some name) = Invoke_branch (Function f)
         \<and> dispatch g0 (Some name) \<noteq> Not_found_branch name
         \<and> main env g0 (Some name) = run env f" if "name \<in> set fns" for name
  proof -
    from that obtain f where f: "pyget (module_globals g0) name = Function f"
      by (auto simp: fns_def pyget_def module_globals_defs)
    from that have "name \<noteq> []"
      by (auto simp: fns_def)
    then have "dispatch g0 (Some name) = Invoke_branch (Function f)"
      by (simp add: dispatch_nonempty f)
    then show ?thesis
      using f by (simp add: main_def)
  qed
  have "length fns = 7"
    by (simp add: fns_def)
  with look each show ?thesis
    by blast
qed

theorem advertised_names_resolve_witness:
  "''assertion_example'' \<in> set fns
   \<and> (\<exists>f. pyget (module_globals script_namespace) ''assertion_example'' = Function f
         \<and> dispatch script_namespace (Some ''assertion_example'') = Invoke_branch (Function f)
         \<and> dispatch script_namespace (Some ''assertion_example'')
             \<noteq> Not_found_branch ''assertion_example''
         \<and> main env_without_optional script_namespace (Some ''assertion_example'')
             = run env_without_optional f)"
proof -
  have m: "''assertion_example'' \<in> set fns"
    by (simp add: fns_def)
  from advertised_names_resolve [of script_namespace env_without_optional] m show ?thesis
    by blast
qed

text \<open>
  C9, as amended: for a name that is not empty, the dispatcher calls whatever callable the
  global namespace binds to it, \<^verbatim>\<open>_list_functions\<close> included, and takes the
  not-found branch, ending normally, when the name is bound to an object that is not
  callable or is not bound at all.
\<close>

theorem dispatcher_resolves_in_globals:
  assumes "name \<noteq> []"
  shows "(callable (pyget (module_globals g0) name) \<longrightarrow>
            dispatch g0 (Some name) = Invoke_branch (pyget (module_globals g0) name)
            \<and> main env g0 (Some name) = call env (pyget (module_globals g0) name))
     \<and> (\<not> callable (pyget (module_globals g0) name) \<longrightarrow>
            dispatch g0 (Some name) = Not_found_branch name
            \<and> main env g0 (Some name) =
                (Print [Str (not_found_message name)] # fst list_functions, Inr ()))
     \<and> ''_list_functions'' \<notin> set fns
     \<and> pyget (module_globals g0) ''_list_functions'' = Function Fn_list_functions
     \<and> main env g0 (Some ''_list_functions'') = list_functions"
proof -
  have "main env g0 (Some ''_list_functions'') = list_functions"
    by (simp add: main_def dispatch_nonempty pyget_def module_globals_defs)
  moreover have "''_list_functions'' \<notin> set fns"
    by (simp add: fns_def)
  moreover have "pyget (module_globals g0) ''_list_functions'' = Function Fn_list_functions"
    by (simp add: pyget_def module_globals_defs)
  moreover have "snd list_functions = Inr ()"
    by (simp add: list_functions_def)
  ultimately show ?thesis
    using assms by (simp add: main_def dispatch_nonempty)
qed

theorem dispatcher_resolves_in_globals_witness:
  "dispatch script_namespace (Some ''timing_example'')
      = Invoke_branch (Function Fn_timing_example)
   \<and> main env_without_optional script_namespace (Some ''timing_example'')
      = timing_example env_without_optional
   \<and> main env_without_optional script_namespace (Some ''_list_functions'') = list_functions
   \<and> dispatch script_namespace (Some ''args'') = Not_found_branch ''args''
   \<and> main env_without_optional script_namespace (Some ''args'') =
        (Print [Str (not_found_message ''args'')] # fst list_functions, Inr ())
   \<and> dispatch script_namespace (Some ''__doc__'') = Not_found_branch ''__doc__''
   \<and> dispatch script_namespace (Some ''missing'') = Not_found_branch ''missing''"
proof -
  have t: "pyget (module_globals script_namespace) ''timing_example''
      = Function Fn_timing_example"
    by (simp add: pyget_def module_globals_defs)
  have a: "\<not> callable (pyget (module_globals script_namespace) ''args'')"
    by (simp add: pyget_def module_globals_def)
  have b: "\<not> callable (pyget (module_globals script_namespace) ''__doc__'')"
    by (simp add: pyget_def module_globals_def script_namespace_def)
  have c: "\<not> callable (pyget (module_globals script_namespace) ''missing'')"
    by (simp add: pyget_def module_globals_def script_namespace_def)
  show ?thesis
    using dispatcher_resolves_in_globals [of "''timing_example''" script_namespace env_without_optional]
      dispatcher_resolves_in_globals [of "''args''" script_namespace env_without_optional]
      dispatcher_resolves_in_globals [of "''__doc__''" script_namespace env_without_optional]
      dispatcher_resolves_in_globals [of "''missing''" script_namespace env_without_optional]
      t a b c
    by simp
qed

text \<open>
  The claim as stated fails at the empty name, which no global is bound to: the
  dispatcher treats it as it treats a missing flag and only lists the names.
\<close>

theorem dispatcher_empty_name_counterexample:
  "module_globals script_namespace [] = None
   \<and> \<not> callable (pyget (module_globals script_namespace) [])
   \<and> dispatch script_namespace (Some []) = List_branch
   \<and> dispatch script_namespace (Some []) \<noteq> Not_found_branch []
   \<and> main env_without_optional script_namespace (Some []) = list_functions
   \<and> main env_without_optional script_namespace (Some []) \<noteq>
        (Print [Str (not_found_message [])] # fst list_functions, Inr ())"
  by (simp add: module_globals_def script_namespace_def pyget_def dispatch_def main_def
      list_functions_def)

section \<open>Properties of the optional-dependency routines\<close>

text \<open>
  C4: when the import of the optional package raises an exception that
  \<^verbatim>\<open>except Exception\<close> catches, the routine prints the warning with the exception and
  the installation hint, and returns normally. Nothing else happens: the decorator and the
  memory readings exist only in the other outcome of the import.
\<close>

theorem optional_dependency_missing:
  "(import_memory_profiler env = Inl e \<and> is_Exception e \<longrightarrow>
      memory_profiler_example env =
        ([Print [Str ([CHR 0xE2, CHR 0x9A, CHR 0xA0, CHR 0xEF, CHR 0xB8, CHR 0x8F]
                      @ ''  memory_profiler no est'' @ [CHR 0xC3, CHR 0xA0] @ '' disponible:''),
                 Exc e],
          Print [Str (''Instal'' @ [CHR 0xC2, CHR 0xB7]
                      @ ''la-la amb: pip install memory_profiler'')]],
         Inr ()))
   \<and> (import_psutil env = Inl e' \<and> is_Exception e' \<longrightarrow>
      psutil_rss_example env =
        ([Print [Str ([CHR 0xE2, CHR 0x9A, CHR 0xA0, CHR 0xEF, CHR 0xB8, CHR 0x8F]
                      @ ''  psutil no est'' @ [CHR 0xC3, CHR 0xA0] @ '' disponible:''),
                 Exc e'],
          Print [Str (''Instal'' @ [CHR 0xC2, CHR 0xB7] @ ''la-la amb: pip install psutil'')]],
         Inr ()))"
  by (simp add: memory_profiler_example_def psutil_rss_example_def)

theorem optional_dependency_missing_witness:
  "memory_profiler_example env_without_optional =
        ([Print [Str ([CHR 0xE2, CHR 0x9A, CHR 0xA0, CHR 0xEF, CHR 0xB8, CHR 0x8F]
                      @ ''  memory_profiler no est'' @ [CHR 0xC3, CHR 0xA0] @ '' disponible:''),
                 Exc (ModuleNotFoundError (''No module named '' @ [CHR 0x27]
                                           @ ''memory_profiler'' @ [CHR 0x27]))],
          Print [Str (''Instal'' @ [CHR 0xC2, CHR 0xB7]
                      @ ''la-la amb: pip install memory_profiler'')]],
         Inr ())
   \<and> psutil_rss_example env_without_optional =
        ([Print [Str ([CHR 0xE2, CHR 0x9A, CHR 0xA0, CHR 0xEF, CHR 0xB8, CHR 0x8F]
                      @ ''  psutil no est'' @ [CHR 0xC3, CHR 0xA0] @ '' disponible:''),
                 Exc (ModuleNotFoundError (''No module named '' @ [CHR 0x27] @ ''psutil''
                                           @ [CHR 0x27]))],
          Print [Str (''Instal'' @ [CHR 0xC2, CHR 0xB7] @ ''la-la amb: pip install psutil'')]],
         Inr ())"
  using optional_dependency_missing
    [of env_without_optional
      "ModuleNotFoundError (''No module named '' @ [CHR 0x27] @ ''memory_profiler'' @ [CHR 0x27])"
      "ModuleNotFoundError (''No module named '' @ [CHR 0x27] @ ''psutil'' @ [CHR 0x27])"]
  by (simp add: env_without_optional_def)

lemma doubled_sum: "sum_list (map (\<lambda>x. x * 2) (map int [0..<n])) = int n * (int n - 1)"
  by (induction n) (simp_all add: algebra_simps)

lemma single_loop_sum: "single_loop tot xs = tot + sum_list (map (\<lambda>x. x * 2) xs)"
  by (induction xs arbitrary: tot) simp_all

lemma memory_profiler_work_value: "memory_profiler_work = ([], Inr 249999500000)"
  unfolding memory_profiler_work_def Let_def doubled_sum by simp

lemma memory_profiler_eficient_work_value: "memory_profiler_eficient_work = ([], Inr 249999500000)"
  unfolding memory_profiler_eficient_work_def single_loop_sum doubled_sum by simp

lemma gauss: "(\<Sum>i = 0..<500000. 2 * int i) = 249999500000"
proof -
  have "(\<Sum>i = 0..<n. 2 * int i) = int n * (int n - 1)" for n
    by (induction n) (simp_all add: algebra_simps)
  then show ?thesis by simp
qed

text \<open>
  C5: both inner functions return the sum of \<open>2 * i\<close> for \<open>i\<close> from 0 to 499999,
  which is 249999500000. With the profiler installed and a decorator that returns the
  value of the function it wraps, both routines print that number; without it, the
  single-loop routine still runs its loop, under the decorator that does nothing, and
  prints the number.
\<close>

theorem memory_profiler_variants_agree:
  "memory_profiler_work = ([], Inr (\<Sum>i = 0..<500000. 2 * int i))
   \<and> memory_profiler_eficient_work = ([], Inr (\<Sum>i = 0..<500000. 2 * int i))
   \<and> (\<Sum>i = 0..<500000. 2 * int i) = 249999500000
   \<and> (import_memory_profiler env = Inr profile
        \<and> snd (profile memory_profiler_work) = snd memory_profiler_work
        \<and> snd (profile memory_profiler_eficient_work) = snd memory_profiler_eficient_work
      \<longrightarrow> memory_profiler_example env =
            (fst (profile memory_profiler_work)
               @ [Print [Str ''Resultat:'', Integer 249999500000]], Inr ())
        \<and> memory_profiler_eficient_example env =
            (fst (profile memory_profiler_eficient_work)
               @ [Print [Str ''Resultat (single-loop):'', Integer 249999500000]], Inr ()))
   \<and> (import_memory_profiler env' = Inl e \<and> is_Exception e
      \<longrightarrow> memory_profiler_eficient_example env' =
            ([Print [Str ''Resultat (single-loop):'', Integer 249999500000]], Inr ()))"
proof -
  note w1 = memory_profiler_work_value and w2 = memory_profiler_eficient_work_value
  have avail: "memory_profiler_example env =
            (fst (profile memory_profiler_work)
               @ [Print [Str ''Resultat:'', Integer 249999500000]], Inr ())
        \<and> memory_profiler_eficient_example env =
            (fst (profile memory_profiler_eficient_work)
               @ [Print [Str ''Resultat (single-loop):'', Integer 249999500000]], Inr ())"
    if i: "import_memory_profiler env = Inr profile"
      and p1: "snd (profile memory_profiler_work) = snd memory_profiler_work"
      and p2: "snd (profile memory_profiler_eficient_work) = snd memory_profiler_eficient_work"
  proof -
    from p1 have r1: "profile memory_profiler_work
        = (fst (profile memory_profiler_work), Inr 249999500000)"
      by (simp add: w1 prod_eq_iff)
    from p2 have r2: "profile memory_profiler_eficient_work
        = (fst (profile memory_profiler_eficient_work), Inr 249999500000)"
      by (simp add: w2 prod_eq_iff)
    have "memory_profiler_example env =
        print_result ''Resultat:'' (profile memory_profiler_work)"
      by (simp add: memory_profiler_example_def i)
    also have "\<dots> = (fst (profile memory_profiler_work)
               @ [Print [Str ''Resultat:'', Integer 249999500000]], Inr ())"
      by (subst r1) (simp add: print_result_def)
    finally have a: "memory_profiler_example env =
        (fst (profile memory_profiler_work)
           @ [Print [Str ''Resultat:'', Integer 249999500000]], Inr ())" .
    have "memory_profiler_eficient_example env =
        print_result ''Resultat (single-loop):'' (profile memory_profiler_eficient_work)"
      by (simp add: memory_profiler_eficient_example_def i)
    also have "\<dots> = (fst (profile memory_profiler_eficient_work)
               @ [Print [Str ''Resultat (single-loop):'', Integer 249999500000]], Inr ())"
      by (subst r2) (simp add: print_result_def)
    finally show ?thesis using a by simp
  qed
  have unavail: "memory_profiler_eficient_example env' =
            ([Print [Str ''Resultat (single-loop):'', Integer 249999500000]], Inr ())"
    if "import_memory_profiler env' = Inl e" and "is_Exception e"
    using that
    by (simp add: memory_profiler_eficient_example_def noop_profile_def w2 print_result_def)
  from w1 w2 gauss avail unavail show ?thesis
    by (simp only: gauss) blast
qed

theorem memory_profiler_variants_agree_witness:
  "memory_profiler_example env_with_optional =
     (fst memory_profiler_work
        @ [Print [Str ''Line #    Mem usage''], Print [Str ''Resultat:'', Integer 249999500000]],
      Inr ())
   \<and> memory_profiler_eficient_example env_with_optional =
     (fst memory_profiler_eficient_work
        @ [Print [Str ''Line #    Mem usage''],
           Print [Str ''Resultat (single-loop):'', Integer 249999500000]],
      Inr ())
   \<and> memory_profiler_eficient_example env_without_optional =
     ([Print [Str ''Resultat (single-loop):'', Integer 249999500000]], Inr ())"
  using memory_profiler_variants_agree
    [of env_with_optional "\<lambda>w. (fst w @ [Print [Str ''Line #    Mem usage'']], snd w)"
        env_without_optional
        "ModuleNotFoundError (''No module named '' @ [CHR 0x27] @ ''memory_profiler''
                              @ [CHR 0x27])"]
  by (simp add: env_with_optional_def env_without_optional_def)

section \<open>Properties of the profiling routine\<close>

lemma by_cumtime_reference: "by_cumtime (rev (sort_key cumtime s))"
proof -
  have "sorted (map cumtime (sort_key cumtime s))"
    by (rule sorted_sort_key)
  then have "sorted_wrt (\<lambda>x y. cumtime x \<le> cumtime y) (sort_key cumtime s)"
    by (simp only: sorted_map)
  then show ?thesis
    unfolding by_cumtime_def sorted_wrt_rev .
qed

lemma ref_contract: "pstats_contract reference_pstats"
  by (simp add: pstats_contract_def reference_pstats_def by_cumtime_reference)

text \<open>
  C6: under the documented behaviour of \<^verbatim>\<open>sort_stats\<close> and \<^verbatim>\<open>print_stats\<close>, the
  report that the routine prints has at most ten entries, in order of non-increasing
  cumulative time. The routine sorts after it strips the directories and prints last, so
  nothing disturbs the order before the report is written.
\<close>

theorem cprofile_example_report:
  assumes "pstats_contract (pstats env)"
  shows "\<exists>es. cprofile_example env = ([Report es], Inr ())
     \<and> length es \<le> 10
     \<and> sorted_wrt (\<lambda>a b. cumtime a \<ge> cumtime b) es"
proof -
  define stats where
    "stats = sort_stats (pstats env) ''cumtime'' (strip_dirs (pstats env) (cprofile_stats env))"
  from assms have ordered: "by_cumtime stats"
    and printed: "print_stats (pstats env) 10 stats = take 10 stats"
    by (simp_all add: pstats_contract_def stats_def)
  have "cprofile_example env = ([Report (take 10 stats)], Inr ())"
    by (simp add: cprofile_example_def Let_def stats_def [symmetric] printed)
  moreover have "length (take 10 stats) \<le> 10"
    by simp
  moreover from ordered have "sorted_wrt (\<lambda>a b. cumtime a \<ge> cumtime b) (take 10 stats)"
    unfolding by_cumtime_def by (rule sorted_wrt_take)
  ultimately show ?thesis
    by blast
qed

theorem cprofile_example_report_witness:
  "pstats_contract (pstats env_without_optional)
   \<and> length (cprofile_stats env_without_optional) = 12
   \<and> (\<exists>es. cprofile_example env_without_optional = ([Report es], Inr ())
     \<and> map cumtime es = [9, 8, 6, 5, 5, 5, 4, 3, 3, 2]
     \<and> length es \<le> 10
     \<and> sorted_wrt (\<lambda>a b. cumtime a \<ge> cumtime b) es)"
proof -
  have c: "pstats_contract (pstats env_without_optional)"
    by (simp add: env_without_optional_def ref_contract)
  have n: "length (cprofile_stats env_without_optional) = 12"
    by (simp add: env_without_optional_def example_profile_def)
  from cprofile_example_report [OF c] obtain es
    where es: "cprofile_example env_without_optional = ([Report es], Inr ())"
      and short: "length es \<le> 10"
      and ordered: "sorted_wrt (\<lambda>a b. cumtime a \<ge> cumtime b) es"
    by blast
  have "map cumtime (print_stats reference_pstats 10
      (sort_stats reference_pstats ''cumtime'' (strip_dirs reference_pstats example_profile)))
    = [9, 8, 6, 5, 5, 5, 4, 3, 3, 2]"
    by (simp add: reference_pstats_def example_profile_def)
  moreover have "es = print_stats reference_pstats 10
      (sort_stats reference_pstats ''cumtime'' (strip_dirs reference_pstats example_profile))"
    using es by (simp add: cprofile_example_def env_without_optional_def Let_def)
  ultimately have "map cumtime es = [9, 8, 6, 5, 5, 5, 4, 3, 3, 2]"
    by simp
  with es short ordered have "\<exists>es. cprofile_example env_without_optional = ([Report es], Inr ())
     \<and> map cumtime es = [9, 8, 6, 5, 5, 5, 4, 3, 3, 2]
     \<and> length es \<le> 10
     \<and> sorted_wrt (\<lambda>a b. cumtime a \<ge> cumtime b) es"
    by (intro exI [of _ es] conjI)
  with c n show ?thesis
    by (intro conjI)
qed

end
